theory Spec2Isabelle
  imports Main
begin

section \<open>Organization membership reconciliation (FederalistUsersHelper.js)\<close>

text \<open>
  A shallow embedding of \<^verbatim>\<open>src/api/services/FederalistUsersHelper.js\<close>. The module
  talks to three collaborators: the \<^verbatim>\<open>User\<close> table (Sequelize), the \<^verbatim>\<open>GitHub\<close>
  service and the \<^verbatim>\<open>EventCreator\<close>/\<^verbatim>\<open>logger\<close> sinks. The table is a list of rows in
  the state; the answers of GitHub are functions of the request; every call made to
  GitHub, every \<^verbatim>\<open>User.update\<close>, every log line and every event is appended to a
  trace in the state, in the order the code issues it.
\<close>

subsection \<open>Data\<close>

text \<open>
  A JavaScript error value, by its \<^verbatim>\<open>name\<close> and \<^verbatim>\<open>message\<close>. Reading a property of
  \<^verbatim>\<open>null\<close> (or destructuring \<^verbatim>\<open>null\<close>) throws a \<^verbatim>\<open>TypeError\<close>; the rejections of
  the GitHub service are values of the same type, chosen by the service.
\<close>

datatype error = Error (errorName: string) (errorMessage: string)

definition nullTypeError :: error where
  "nullTypeError = Error ''TypeError'' ''Cannot read properties of null''"

text \<open>
  Modelled from the spec: the \<^verbatim>\<open>User\<close> model (\<^verbatim>\<open>api/models\<close>) is not among the sources;
  the row has the attributes the module reads and the spec lists (username, isActive,
  signedInAt, pushedAt, createdAt, the access token), under the names the module uses.
  Timestamps are milliseconds; a nullable column is an option, \<^verbatim>\<open>NULL\<close> being \<open>None\<close>.
\<close>

record user =
  userId :: nat
  username :: string
  isActive :: bool
  signedInAt :: "int option"
  pushedAt :: "int option"
  createdAt :: "int option"
  githubAccessToken :: "string option"

text \<open>A member record as GitHub returns it; the module reads only \<^verbatim>\<open>login\<close>.\<close>

record member =
  login :: string

text \<open>\<^verbatim>\<open>config.federalistUsers\<close>: the configuration is not among the sources, so it is a parameter.\<close>

record federalistUsers =
  orgName :: string
  admin :: string
  teams18F :: "string list"
  maxDaysSinceLogin :: int

text \<open>\<^verbatim>\<open>Event.labels\<close>, as far as the module uses them.\<close>

datatype label = UPDATED | FEDERALIST_USERS

text \<open>
  What the module does to the outside, one constructor per kind of call:
  the three GitHub requests (access token, organization, then role, team or login),
  \<^verbatim>\<open>User.update\<close> (the new value of isActive, whether the where clause is
  \<^verbatim>\<open>Op.in\<close> (True) or \<^verbatim>\<open>Op.notIn\<close> (False), and the logins), \<^verbatim>\<open>logger.info\<close>,
  \<^verbatim>\<open>EventCreator.audit\<close> (label, the returned row as (id, isActive), and the isActive
  of the action) and \<^verbatim>\<open>EventCreator.error\<close> (label, error, login, action).

  Modelled from the spec: \<^verbatim>\<open>EventCreator\<close> and \<^verbatim>\<open>logger\<close> are not among the sources.
  They are fire-and-forget sinks: a call records its arguments and returns.
\<close>

datatype effect =
    GetOrganizationMembers "string option" string "string option"
  | GetTeamMembers "string option" string string
  | RemoveOrganizationMember "string option" string string
  | UserUpdate bool bool "string list"
  | LoggerInfo string
  | AuditEvent label "nat \<times> bool" bool
  | ErrorEvent label error string string

text \<open>
  Modelled from the spec: the \<^verbatim>\<open>GitHub\<close> service (\<^verbatim>\<open>api/services/GitHub\<close>) is not among
  the sources. By its contract it returns the member records of an organization or of a
  team, and removes a member, failing on any transport or authorization failure. Its
  answers are a parameter: one function per call, \<open>Inl\<close> being a rejected promise.
\<close>

record github =
  organizationMembers :: "string option \<Rightarrow> string \<Rightarrow> string option \<Rightarrow> error + member list"
  teamMembers :: "string option \<Rightarrow> string \<Rightarrow> string \<Rightarrow> error + member list"
  removal :: "string option \<Rightarrow> string \<Rightarrow> string \<Rightarrow> error + unit"

record state =
  users :: "user list"
  trace :: "effect list"

subsection \<open>Promises\<close>

text \<open>
  A promise, as far as the module can tell: the effects of creating it (the request is
  sent when the function is called), the effects of its handlers when it settles, and
  how it settles.
\<close>

record 'a promise =
  issued :: "effect list"
  settled :: "effect list"
  outcome :: "error + 'a"

definition emit :: "effect list \<Rightarrow> state \<Rightarrow> state" where
  "emit es s = s\<lparr>trace := trace s @ es\<rparr>"

text \<open>\<^verbatim>\<open>await p\<close> (or \<^verbatim>\<open>p.then(...)\<close>): the promise is created, settles, and its outcome is read.\<close>

definition await :: "'a promise \<Rightarrow> state \<Rightarrow> (error + 'a) \<times> state" where
  "await p s = (outcome p, emit (issued p @ settled p) s)"

text \<open>
  The outcome of \<^verbatim>\<open>Promise.all\<close>: the list of values when every promise resolves, a
  rejection when one rejects. JavaScript rejects with the rejection that settles first
  in time; the model takes the first in list order, and no theorem below depends on
  which one it is beyond its being one of the rejections.
\<close>

fun allOutcomes :: "(error + 'a) list \<Rightarrow> error + 'a list" where
  "allOutcomes [] = Inr []"
| "allOutcomes (Inl e # ps) = Inl e"
| "allOutcomes (Inr x # ps) = (case allOutcomes ps of Inl e \<Rightarrow> Inl e | Inr xs \<Rightarrow> Inr (x # xs))"

text \<open>
  \<^verbatim>\<open>Promise.all(xs.map(f))\<close>: \<^verbatim>\<open>map\<close> creates every promise, one after the other, before any
  of them settles; then they settle.
\<close>

definition Promise_all :: "'a promise list \<Rightarrow> 'a list promise" where
  "Promise_all ps =
     \<lparr>issued = concat (map issued ps), settled = concat (map settled ps),
      outcome = allOutcomes (map outcome ps)\<rparr>"

subsection \<open>The collaborators\<close>

definition GitHub_getOrganizationMembers ::
  "github \<Rightarrow> string option \<Rightarrow> string \<Rightarrow> string option \<Rightarrow> member list promise" where
  "GitHub_getOrganizationMembers gh token org role =
     \<lparr>issued = [GetOrganizationMembers token org role], settled = [],
      outcome = organizationMembers gh token org role\<rparr>"

definition GitHub_getTeamMembers ::
  "github \<Rightarrow> string option \<Rightarrow> string \<Rightarrow> string \<Rightarrow> member list promise" where
  "GitHub_getTeamMembers gh token org team =
     \<lparr>issued = [GetTeamMembers token org team], settled = [],
      outcome = teamMembers gh token org team\<rparr>"

definition GitHub_removeOrganizationMember ::
  "github \<Rightarrow> string option \<Rightarrow> string \<Rightarrow> string \<Rightarrow> unit promise" where
  "GitHub_removeOrganizationMember gh token org lg =
     \<lparr>issued = [RemoveOrganizationMember token org lg], settled = [],
      outcome = removal gh token org lg\<rparr>"

text \<open>
  The table answers every query (a failing database is not modelled).
  \<^verbatim>\<open>User.findOne({ where: { username } })\<close>: the first row with that username, or null.
\<close>

definition User_findOne :: "string \<Rightarrow> user list \<Rightarrow> user option" where
  "User_findOne name us = find (\<lambda>u. username u = name) us"

text \<open>\<^verbatim>\<open>User.findAll({ where })\<close>: the rows the where clause selects.\<close>

definition User_findAll :: "(user \<Rightarrow> bool) \<Rightarrow> user list \<Rightarrow> user list" where
  "User_findAll wh us = filter wh us"

text \<open>
  \<^verbatim>\<open>User.update({ isActive: v }, { where, returning: ['id', 'isActive'] })\<close>: the table
  with the selected rows updated, and the updated rows as (id, isActive).
\<close>

definition User_update :: "bool \<Rightarrow> (user \<Rightarrow> bool) \<Rightarrow> user list \<Rightarrow> (nat \<times> bool) list \<times> user list" where
  "User_update v wh us =
     (map (\<lambda>u. (userId u, v)) (filter wh us),
      map (\<lambda>u. if wh u then u\<lparr>isActive := v\<rparr> else u) us)"

text \<open>
  \<^verbatim>\<open>{ [Op.lt]: d }\<close> on a nullable column: SQL's \<^verbatim>\<open><\<close> is not true of \<^verbatim>\<open>NULL\<close>.
\<close>

definition Op_lt :: "int option \<Rightarrow> int \<Rightarrow> bool" where
  "Op_lt col d = (case col of None \<Rightarrow> False | Some t \<Rightarrow> t < d)"

text \<open>
  \<^verbatim>\<open>String.prototype.toLowerCase\<close> on the ASCII range, which is where GitHub logins
  live: the letters A to Z (65 to 90) move to a to z, every other character stays.
  (Outside ASCII JavaScript follows the Unicode case mapping, which is not modelled.)
\<close>

definition toLowerChar :: "char \<Rightarrow> char" where
  "toLowerChar c =
     (let n = (of_char c :: nat) in if 65 \<le> n \<and> n \<le> 90 then char_of (n + 32) else c)"

definition toLowerCase :: "string \<Rightarrow> string" where
  "toLowerCase s = map toLowerChar s"

subsection \<open>The module\<close>

text \<open>\<^verbatim>\<open>auditorUsername || config.federalistUsers.admin\<close>: undefined and the empty string are falsy.\<close>

definition orAdmin :: "federalistUsers \<Rightarrow> string option \<Rightarrow> string" where
  "orAdmin cfg auditorUsername =
     (case auditorUsername of None \<Rightarrow> admin cfg | Some n \<Rightarrow> if n = [] then admin cfg else n)"

text \<open>A default parameter (\<^verbatim>\<open>auditorUsername = config.federalistUsers.admin\<close>) replaces only \<^verbatim>\<open>undefined\<close>.\<close>

definition defaultAdmin :: "federalistUsers \<Rightarrow> string option \<Rightarrow> string" where
  "defaultAdmin cfg auditorUsername = (case auditorUsername of None \<Rightarrow> admin cfg | Some n \<Rightarrow> n)"

text \<open>
  The body of the last \<^verbatim>\<open>then\<close> of \<^verbatim>\<open>audit18F\<close>: the two nested \<^verbatim>\<open>forEach\<close> loops push
  one removal promise, and write one log line, for every team member that is in
  neither list; nothing at all when \<^verbatim>\<open>members18F\<close> is empty.
\<close>

definition removed18F ::
  "github \<Rightarrow> federalistUsers \<Rightarrow> string option \<Rightarrow> string list \<Rightarrow> string list \<Rightarrow> member list list
     \<Rightarrow> unit promise list" where
  "removed18F gh cfg token members18F adminFedUsers teams =
     (if length members18F > 0 then
        concat (map (\<lambda>team. concat (map (\<lambda>member.
          if login member \<notin> set members18F \<and> login member \<notin> set adminFedUsers
          then [let p = GitHub_removeOrganizationMember gh token (orgName cfg) (login member)
                in p\<lparr>issued := issued p @
                     [LoggerInfo (''federalist-users: removed user '' @ login member)]\<rparr>]
          else []) team)) teams)
      else [])"

definition audit18F ::
  "github \<Rightarrow> federalistUsers \<Rightarrow> string option \<Rightarrow> string list option \<Rightarrow> state
     \<Rightarrow> (error + unit list) \<times> state" where
  "audit18F gh cfg auditorUsername0 fedUserTeams0 s =
     (let auditorUsername = orAdmin cfg auditorUsername0;
          fedUserTeams = (case fedUserTeams0 of None \<Rightarrow> teams18F cfg | Some ts \<Rightarrow> ts)
      in case User_findOne auditorUsername (users s) of
           None \<Rightarrow> (Inl nullTypeError, s)
         | Some auditor \<Rightarrow>
            (case await (GitHub_getOrganizationMembers gh (githubAccessToken auditor) ''18F'' None) s of
               (Inl e, s1) \<Rightarrow> (Inl e, s1)
             | (Inr members, s1) \<Rightarrow>
                (let members18F = map login members in
                 case await (GitHub_getOrganizationMembers gh (githubAccessToken auditor)
                               (orgName cfg) (Some ''admin'')) s1 of
                   (Inl e, s2) \<Rightarrow> (Inl e, s2)
                 | (Inr admins, s2) \<Rightarrow>
                    (let adminFedUsers = map login admins in
                     case await (Promise_all (map (\<lambda>team. GitHub_getTeamMembers gh
                                   (githubAccessToken auditor) (orgName cfg) team) fedUserTeams)) s2 of
                       (Inl e, s3) \<Rightarrow> (Inl e, s3)
                     | (Inr teams, s3) \<Rightarrow>
                        await (Promise_all (removed18F gh cfg (githubAccessToken auditor)
                                 members18F adminFedUsers teams)) s3))))"

text \<open>\<^verbatim>\<open>federalistUsersAdmins\<close>: the logins of the organization's admins.\<close>

definition federalistUsersAdmins ::
  "github \<Rightarrow> federalistUsers \<Rightarrow> string option \<Rightarrow> state \<Rightarrow> (error + string list) \<times> state" where
  "federalistUsersAdmins gh cfg token s =
     (case await (GitHub_getOrganizationMembers gh token (orgName cfg) (Some ''admin'')) s of
        (Inl e, s1) \<Rightarrow> (Inl e, s1)
      | (Inr admins, s1) \<Rightarrow> (Inr (map login admins), s1))"

text \<open>
  \<^verbatim>\<open>refreshIsActiveUsers\<close>. The audit events are sent without being awaited, right
  after each update.
\<close>

definition refreshIsActiveUsers ::
  "github \<Rightarrow> federalistUsers \<Rightarrow> string option \<Rightarrow> state \<Rightarrow> (error + unit) \<times> state" where
  "refreshIsActiveUsers gh cfg auditorUsername0 s =
     (let auditorUsername = defaultAdmin cfg auditorUsername0
      in case User_findOne auditorUsername (users s) of
           None \<Rightarrow> (Inl nullTypeError, s)
         | Some auditor \<Rightarrow>
            (case await (GitHub_getOrganizationMembers gh (githubAccessToken auditor)
                          (orgName cfg) None) s of
               (Inl e, s1) \<Rightarrow> (Inl e, s1)
             | (Inr members, s1) \<Rightarrow>
                (let logins = map (\<lambda>m. toLowerCase (login m)) members;
                     (activeUsers, us2) =
                        User_update True (\<lambda>u. username u \<in> set logins \<and> isActive u = False)
                          (users s1);
                     s2 = emit (UserUpdate True True logins
                                # map (\<lambda>row. AuditEvent UPDATED row (snd row)) activeUsers)
                            (s1\<lparr>users := us2\<rparr>);
                     (inactiveUsers, us3) =
                        User_update False (\<lambda>u. username u \<notin> set logins \<and> isActive u = True)
                          (users s2);
                     s3 = emit (UserUpdate False False logins
                                # map (\<lambda>row. AuditEvent UPDATED row (snd row)) inactiveUsers)
                            (s2\<lparr>users := us3\<rparr>)
                 in (Inr (), s3))))"

text \<open>
  \<^verbatim>\<open>removeMember\<close>: the removal request with a \<^verbatim>\<open>catch\<close> on it. A rejection is handed
  to \<^verbatim>\<open>EventCreator.error\<close>, together with the login and the action, and the promise
  resolves with what that call returns.
\<close>

definition removeMember :: "github \<Rightarrow> federalistUsers \<Rightarrow> string option \<Rightarrow> string \<Rightarrow> unit promise" where
  "removeMember gh cfg token lg =
     (let p = GitHub_removeOrganizationMember gh token (orgName cfg) lg
      in case outcome p of
           Inr v \<Rightarrow> p
         | Inl e \<Rightarrow> p\<lparr>settled := settled p @ [ErrorEvent FEDERALIST_USERS e lg ''removeOrgMember''],
                      outcome := Inr ()\<rparr>)"

text \<open>
  Time values are milliseconds since the epoch, as in a JavaScript \<^verbatim>\<open>Date\<close>. The time
  zone of the process is a parameter, in the form of ECMAScript's LocalTZA(t, isUTC): the
  offset of local time from UTC, at the UTC time \<open>t\<close> when \<open>isUTC\<close> holds and at the local
  time \<open>t\<close> when it does not. \<^verbatim>\<open>LocalTime\<close>, \<^verbatim>\<open>UTC\<close> and \<^verbatim>\<open>TimeClip\<close> are the abstract
  operations of the language: a time value beyond 8.64e15 in magnitude is not a date
  (\<open>None\<close>: an Invalid Date).
\<close>

type_synonym timezone = "int \<Rightarrow> bool \<Rightarrow> int"

definition msPerDay :: int where
  "msPerDay = 86400000"

definition LocalTime :: "timezone \<Rightarrow> int \<Rightarrow> int" where
  "LocalTime tz t = t + tz t True"

definition UTC :: "timezone \<Rightarrow> int \<Rightarrow> int" where
  "UTC tz t = t - tz t False"

definition TimeClip :: "int \<Rightarrow> int option" where
  "TimeClip t = (if abs t > 8640000000000000 then None else Some t)"

text \<open>
  \<^verbatim>\<open>m.subtract(days, 'days')\<close> on a moment in local mode, for a whole number of days:
  the library leaves the moment alone when \<open>days\<close> is 0 and otherwise calls
  \<^verbatim>\<open>setDate(getDate() - days)\<close> on its \<^verbatim>\<open>Date\<close>, which moves the local time back by
  \<open>days\<close> calendar days, keeps the time within the day and converts back to UTC. Where
  the offset of the zone is the same at both ends this is \<open>days\<close> times 24 hours; across
  a change of the clocks it is an hour more or less.
\<close>

definition subtractDays :: "timezone \<Rightarrow> int \<Rightarrow> int \<Rightarrow> int option" where
  "subtractDays tz t days =
     (if days = 0 then TimeClip t
      else TimeClip (UTC tz (LocalTime tz t - days * msPerDay)))"

text \<open>\<^verbatim>\<open>now.clone().subtract(MAX_DAYS_SINCE_LOGIN, 'days')\<close>, where \<^verbatim>\<open>now\<close> is \<^verbatim>\<open>moment()\<close>.\<close>

definition cutoff :: "timezone \<Rightarrow> federalistUsers \<Rightarrow> int \<Rightarrow> int option" where
  "cutoff tz cfg now = subtractDays tz now (maxDaysSinceLogin cfg)"

text \<open>
  An Invalid Date in a where clause: Sequelize writes it into the query as the text
  \<^verbatim>\<open>Invalid date\<close>, the database refuses the query, and \<^verbatim>\<open>User.findAll\<close> rejects.
\<close>

definition invalidDateError :: error where
  "invalidDateError =
     Error ''SequelizeDatabaseError'' ''invalid input syntax for type timestamp with time zone''"

text \<open>The where clause of \<^verbatim>\<open>revokeMembershipForInactiveUsers\<close>.\<close>

definition inactiveWhere :: "int \<Rightarrow> user \<Rightarrow> bool" where
  "inactiveWhere c u =
     (isActive u = True \<and> Op_lt (signedInAt u) c \<and> Op_lt (pushedAt u) c \<and> Op_lt (createdAt u) c)"

text \<open>
  \<^verbatim>\<open>revokeMembershipForInactiveUsers\<close>, in the time zone \<open>tz\<close> at the time \<open>now\<close>. The
  cutoff is computed first; the auditor is looked up; then the stale rows are selected.
\<close>

definition revokeMembershipForInactiveUsers ::
  "github \<Rightarrow> federalistUsers \<Rightarrow> timezone \<Rightarrow> int \<Rightarrow> string option \<Rightarrow> state
     \<Rightarrow> (error + unit list) \<times> state" where
  "revokeMembershipForInactiveUsers gh cfg tz now auditorUsername0 s =
     (let auditorUsername = orAdmin cfg auditorUsername0;
          cutoffDate = cutoff tz cfg now
      in case User_findOne auditorUsername (users s) of
           None \<Rightarrow> (Inl nullTypeError, s)
         | Some auditor \<Rightarrow>
            (case cutoffDate of
               None \<Rightarrow> (Inl invalidDateError, s)
             | Some c \<Rightarrow>
                (let us = User_findAll (inactiveWhere c) (users s)
                 in await (Promise_all (map (\<lambda>u. removeMember gh cfg (githubAccessToken auditor)
                                                 (username u)) us)) s)))"

definition removeMembersWhoAreNotUsers ::
  "github \<Rightarrow> federalistUsers \<Rightarrow> string option \<Rightarrow> state \<Rightarrow> (error + unit list) \<times> state" where
  "removeMembersWhoAreNotUsers gh cfg auditorUsername0 s =
     (let auditorUsername = orAdmin cfg auditorUsername0
      in case User_findOne auditorUsername (users s) of
           None \<Rightarrow> (Inl nullTypeError, s)
         | Some auditor \<Rightarrow>
            (let allUsers = User_findAll (\<lambda>u. True) (users s);
                 allUsernames = map username allUsers
             in case await (GitHub_getOrganizationMembers gh (githubAccessToken auditor)
                              (orgName cfg) None) s of
                  (Inl e, s1) \<Rightarrow> (Inl e, s1)
                | (Inr allMembers, s1) \<Rightarrow>
                   (let allMemberLogins = map login allMembers;
                        memberLoginsToRemove =
                          filter (\<lambda>lg. toLowerCase lg \<notin> set allUsernames) allMemberLogins
                    in await (Promise_all (map (\<lambda>lg. removeMember gh cfg (githubAccessToken auditor) lg)
                                             memberLoginsToRemove)) s1)))"

subsection \<open>Reading a trace\<close>

fun isRemoval :: "effect \<Rightarrow> bool" where
  "isRemoval (RemoveOrganizationMember token org lg) = True"
| "isRemoval e = False"

fun isAuditEvent :: "effect \<Rightarrow> bool" where
  "isAuditEvent (AuditEvent l row a) = True"
| "isAuditEvent e = False"

fun isErrorEvent :: "effect \<Rightarrow> bool" where
  "isErrorEvent (ErrorEvent l e lg a) = True"
| "isErrorEvent e = False"

text \<open>The removal requests, the audit events and the failure events of a trace, in order.\<close>

definition removals :: "effect list \<Rightarrow> effect list" where
  "removals t = filter isRemoval t"

definition auditEvents :: "effect list \<Rightarrow> effect list" where
  "auditEvents t = filter isAuditEvent t"

definition errorEvents :: "effect list \<Rightarrow> effect list" where
  "errorEvents t = filter isErrorEvent t"

text \<open>The name of the error an operation rejects with, if it rejects.\<close>

definition rejectionName :: "error + 'a \<Rightarrow> string option" where
  "rejectionName r = (case r of Inl e \<Rightarrow> Some (errorName e) | Inr v \<Rightarrow> None)"

subsection \<open>Concrete inputs\<close>

text \<open>
  A configuration, a roster row and a GitHub service to run the module on: the service
  answers with the given reference group (the organization 18F), admins, organization
  members and team members, and rejects the removal of the given logins.
\<close>

definition exampleConfig :: federalistUsers where
  "exampleConfig =
     \<lparr>orgName = ''federalist-users'', admin = ''admin'', teams18F = [''12345''],
      maxDaysSinceLogin = 90\<rparr>"

definition exampleUser :: "nat \<Rightarrow> string \<Rightarrow> bool \<Rightarrow> int option \<Rightarrow> int option \<Rightarrow> int option \<Rightarrow> user" where
  "exampleUser i n a s p c =
     \<lparr>userId = i, username = n, isActive = a, signedInAt = s, pushedAt = p, createdAt = c,
      githubAccessToken = Some ''token''\<rparr>"

definition exampleGitHub ::
  "string list \<Rightarrow> string list \<Rightarrow> string list \<Rightarrow> string list \<Rightarrow> string list \<Rightarrow> github" where
  "exampleGitHub refs admins members team failing =
     \<lparr>organizationMembers = (\<lambda>token org role.
        if org = ''18F'' \<and> role = None then Inr (map (\<lambda>lg. \<lparr>login = lg\<rparr>) refs)
        else if role = Some ''admin'' then Inr (map (\<lambda>lg. \<lparr>login = lg\<rparr>) admins)
        else Inr (map (\<lambda>lg. \<lparr>login = lg\<rparr>) members)),
      teamMembers = (\<lambda>token org t. Inr (map (\<lambda>lg. \<lparr>login = lg\<rparr>) team)),
      removal = (\<lambda>token org lg.
        if lg \<in> set failing then Inl (Error ''HttpError'' ''Forbidden'') else Inr ())\<rparr>"

text \<open>
  Two time zones: UTC, and a zone that is on UTC until the time 3600000000 and one hour
  ahead from then on (the local hour that is skipped takes the offset before the change).
\<close>

definition utcZone :: timezone where
  "utcZone t isUTC = 0"

definition clockChangeZone :: timezone where
  "clockChangeZone t isUTC =
     (if isUTC then (if t < 3600000000 then 0 else 3600000)
      else (if t < 3603600000 then 0 else 3600000))"

definition exampleState :: "user list \<Rightarrow> state" where
  "exampleState us = \<lparr>users = exampleUser 0 ''admin'' True None None None # us, trace = []\<rparr>"

section \<open>Properties\<close>

subsection \<open>Promises, traces and the caught removal\<close>

lemma allOutcomes_resolved: "allOutcomes (map (\<lambda>x. Inr (f x)) xs) = Inr (map f xs)"
  by (induction xs) simp_all

lemma allOutcomes_rejected:
  "Inl e \<in> set ps \<Longrightarrow> \<exists>e'. allOutcomes ps = Inl e' \<and> Inl e' \<in> set ps"
proof (induction ps rule: allOutcomes.induct)
  case 1
  then show ?case by simp
next
  case (2 e' ps)
  then show ?case by simp
next
  case (3 x ps)
  then show ?case by (auto split: sum.splits)
qed

lemma await_getOrganizationMembers:
  "await (GitHub_getOrganizationMembers gh token org role) s =
     (organizationMembers gh token org role,
      s\<lparr>trace := trace s @ [GetOrganizationMembers token org role]\<rparr>)"
  by (simp add: await_def GitHub_getOrganizationMembers_def emit_def)

lemma removals_Cons: "removals (e # t) = (if isRemoval e then e # removals t else removals t)"
  by (simp add: removals_def)

lemma auditEvents_Cons:
  "auditEvents (e # t) = (if isAuditEvent e then e # auditEvents t else auditEvents t)"
  by (simp add: auditEvents_def)

lemma errorEvents_Cons:
  "errorEvents (e # t) = (if isErrorEvent e then e # errorEvents t else errorEvents t)"
  by (simp add: errorEvents_def)

lemma removals_append: "removals (t @ t') = removals t @ removals t'"
  by (simp add: removals_def)

lemma auditEvents_append: "auditEvents (t @ t') = auditEvents t @ auditEvents t'"
  by (simp add: auditEvents_def)

lemma errorEvents_append: "errorEvents (t @ t') = errorEvents t @ errorEvents t'"
  by (simp add: errorEvents_def)

lemma outcome_removeMember: "outcome (removeMember gh cfg token lg) = Inr ()"
  by (simp add: removeMember_def GitHub_removeOrganizationMember_def Let_def split: sum.splits)

lemma issued_removeMember:
  "issued (removeMember gh cfg token lg) = [RemoveOrganizationMember token (orgName cfg) lg]"
  by (simp add: removeMember_def GitHub_removeOrganizationMember_def Let_def split: sum.splits)

lemma settled_removeMember:
  "settled (removeMember gh cfg token lg) =
     (case removal gh token (orgName cfg) lg of
        Inl e \<Rightarrow> [ErrorEvent FEDERALIST_USERS e lg ''removeOrgMember'']
      | Inr v \<Rightarrow> [])"
  by (simp add: removeMember_def GitHub_removeOrganizationMember_def Let_def split: sum.splits)

text \<open>The batch of caught removals: what it sends, what it reports, how it settles.\<close>

lemma removeMember_batch:
  "await (Promise_all (map (\<lambda>lg. removeMember gh cfg token lg) lgs)) s =
     (Inr (map (\<lambda>lg. ()) lgs),
      s\<lparr>trace := trace s @ map (RemoveOrganizationMember token (orgName cfg)) lgs
          @ concat (map (\<lambda>lg. settled (removeMember gh cfg token lg)) lgs)\<rparr>)"
proof -
  have iss: "concat (map (\<lambda>lg. issued (removeMember gh cfg token lg)) lgs) =
      map (RemoveOrganizationMember token (orgName cfg)) lgs"
    by (induction lgs) (simp_all add: issued_removeMember)
  have out: "allOutcomes (map (\<lambda>lg. outcome (removeMember gh cfg token lg)) lgs) =
      Inr (map (\<lambda>lg. ()) lgs)"
    using allOutcomes_resolved [of "\<lambda>lg. ()" lgs] by (simp add: outcome_removeMember)
  show ?thesis
    by (simp add: await_def Promise_all_def emit_def iss out comp_def)
qed

lemma removals_requests:
  "removals (map (RemoveOrganizationMember token org) lgs) = map (RemoveOrganizationMember token org) lgs"
  by (induction lgs) (simp_all add: removals_def)

lemma removals_settled:
  "removals (concat (map (\<lambda>lg. settled (removeMember gh cfg token lg)) lgs)) = []"
  by (induction lgs) (simp_all add: removals_def settled_removeMember split: sum.splits)

lemma errorEvents_requests:
  "errorEvents (map (RemoveOrganizationMember token org) lgs) = []"
  by (induction lgs) (simp_all add: errorEvents_def)

lemma removeMembersWhoAreNotUsers_run:
  assumes "User_findOne (orAdmin cfg a) (users s) = Some auditor"
    and "organizationMembers gh (githubAccessToken auditor) (orgName cfg) None = Inr E"
  shows "removeMembersWhoAreNotUsers gh cfg a s =
     (let lgs = filter (\<lambda>lg. toLowerCase lg \<notin> set (map username (users s))) (map login E) in
      (Inr (map (\<lambda>lg. ()) lgs),
       s\<lparr>trace := trace s @ [GetOrganizationMembers (githubAccessToken auditor) (orgName cfg) None]
          @ map (RemoveOrganizationMember (githubAccessToken auditor) (orgName cfg)) lgs
          @ concat (map (\<lambda>lg. settled (removeMember gh cfg (githubAccessToken auditor) lg)) lgs)\<rparr>))"
  using assms
  by (simp add: removeMembersWhoAreNotUsers_def Let_def removeMember_batch User_findAll_def
      await_getOrganizationMembers)

subsection \<open>Remove members with no roster entry\<close>

text \<open>
  C1 (as amended). When the auditor's row exists and GitHub answers with the member
  list \<open>E\<close>, \<^verbatim>\<open>removeMembersWhoAreNotUsers\<close> sends exactly one removal request for every
  login of \<open>E\<close> whose lower-cased form is not among the stored usernames, in the order of
  \<open>E\<close>, and none when the lower-cased form of every login of \<open>E\<close> is a stored username.
  The stored usernames are compared as they are: they are not lower-cased.
\<close>

theorem removeMembersWhoAreNotUsers_removals:
  assumes "User_findOne (orAdmin cfg a) (users s) = Some auditor"
    and "organizationMembers gh (githubAccessToken auditor) (orgName cfg) None = Inr E"
  shows "removals (trace (snd (removeMembersWhoAreNotUsers gh cfg a s))) =
           removals (trace s) @
           map (RemoveOrganizationMember (githubAccessToken auditor) (orgName cfg))
             (filter (\<lambda>lg. toLowerCase lg \<notin> set (map username (users s))) (map login E))
         \<and> ((\<forall>lg \<in> set (map login E). toLowerCase lg \<in> set (map username (users s))) \<longrightarrow>
              removals (trace (snd (removeMembersWhoAreNotUsers gh cfg a s))) = removals (trace s))"
proof -
  let ?lgs = "filter (\<lambda>lg. toLowerCase lg \<notin> set (map username (users s))) (map login E)"
  have run: "removals (trace (snd (removeMembersWhoAreNotUsers gh cfg a s))) =
      removals (trace s) @ map (RemoveOrganizationMember (githubAccessToken auditor) (orgName cfg)) ?lgs"
    by (simp add: removeMembersWhoAreNotUsers_run [OF assms] Let_def removals_append
        removals_Cons removals_requests removals_settled)
  have "?lgs = []" if "\<forall>lg \<in> set (map login E). toLowerCase lg \<in> set (map username (users s))"
    using that by (simp add: filter_empty_conv)
  with run show ?thesis by simp
qed

subsection \<open>Concrete runs\<close>

lemma toLowerCase_examples:
  "toLowerCase ''admin'' = ''admin''"
  "toLowerCase ''Admin'' = ''admin''"
  "toLowerCase ''jane'' = ''jane''"
  "toLowerCase ''Jane'' = ''jane''"
  "toLowerCase ''Bob'' = ''bob''"
  by code_simp+

lemmas example_defs = exampleConfig_def exampleUser_def exampleGitHub_def exampleState_def

text \<open>
  C1, on a roster with the usernames admin and jane: of the members Admin, Bob and Jane
  only Bob is removed; of the members Admin and Jane, nobody.
\<close>

theorem removeMembersWhoAreNotUsers_removals_witness:
  "removals (trace (snd (removeMembersWhoAreNotUsers
      (exampleGitHub [] [] [''Admin'', ''Bob'', ''Jane''] [] []) exampleConfig None
      (exampleState [exampleUser 1 ''jane'' True None None None])))) =
     [RemoveOrganizationMember (Some ''token'') ''federalist-users'' ''Bob'']
   \<and> removals (trace (snd (removeMembersWhoAreNotUsers
      (exampleGitHub [] [] [''Admin'', ''Jane''] [] []) exampleConfig None
      (exampleState [exampleUser 1 ''jane'' True None None None])))) = []"
proof -
  let ?s = "exampleState [exampleUser 1 ''jane'' True None None None]"
  have auditor: "User_findOne (orAdmin exampleConfig None) (users ?s) =
      Some (exampleUser 0 ''admin'' True None None None)"
    by (simp add: User_findOne_def orAdmin_def example_defs)
  have E1: "organizationMembers (exampleGitHub [] [] [''Admin'', ''Bob'', ''Jane''] [] [])
      (githubAccessToken (exampleUser 0 ''admin'' True None None None)) (orgName exampleConfig) None =
      Inr [\<lparr>login = ''Admin''\<rparr>, \<lparr>login = ''Bob''\<rparr>, \<lparr>login = ''Jane''\<rparr>]"
    by (simp add: example_defs)
  have E2: "organizationMembers (exampleGitHub [] [] [''Admin'', ''Jane''] [] [])
      (githubAccessToken (exampleUser 0 ''admin'' True None None None)) (orgName exampleConfig) None =
      Inr [\<lparr>login = ''Admin''\<rparr>, \<lparr>login = ''Jane''\<rparr>]"
    by (simp add: example_defs)
  show ?thesis
    using removeMembersWhoAreNotUsers_removals [OF auditor E1]
      removeMembersWhoAreNotUsers_removals [OF auditor E2]
    by (simp add: toLowerCase_examples example_defs removals_def)
qed

text \<open>
  C1 as the specification states it fails: with the stored usernames admin and Jane and
  the members admin and jane, every lower-cased login is in the lower-cased username
  set, and yet the removal of jane is requested.
\<close>

theorem removeMembersWhoAreNotUsers_lowercased_roster_counterexample:
  "set (map toLowerCase [''admin'', ''jane'']) \<subseteq> set (map toLowerCase [''admin'', ''Jane''])
   \<and> map username (users (exampleState [exampleUser 1 ''Jane'' True None None None])) = [''admin'', ''Jane'']
   \<and> removals (trace (snd (removeMembersWhoAreNotUsers
        (exampleGitHub [] [] [''admin'', ''jane''] [] []) exampleConfig None
        (exampleState [exampleUser 1 ''Jane'' True None None None])))) =
      [RemoveOrganizationMember (Some ''token'') ''federalist-users'' ''jane'']"
  by (simp add: toLowerCase_examples example_defs removals_def removeMembersWhoAreNotUsers_def
      User_findOne_def User_findAll_def orAdmin_def await_def emit_def Promise_all_def
      GitHub_getOrganizationMembers_def GitHub_removeOrganizationMember_def removeMember_def)

subsection \<open>Revoke stale access\<close>

lemma errorEvents_settled:
  "errorEvents (concat (map (\<lambda>lg. settled (removeMember gh cfg token lg)) lgs)) =
     concat (map (\<lambda>lg. settled (removeMember gh cfg token lg)) lgs)"
  by (induction lgs) (simp_all add: errorEvents_def settled_removeMember split: sum.splits)

lemma revokeMembershipForInactiveUsers_run:
  assumes "User_findOne (orAdmin cfg a) (users s) = Some auditor"
    and "cutoff tz cfg now = Some c"
  shows "revokeMembershipForInactiveUsers gh cfg tz now a s =
     (let lgs = map username (User_findAll (inactiveWhere c) (users s)) in
      (Inr (map (\<lambda>lg. ()) lgs),
       s\<lparr>trace := trace s
          @ map (RemoveOrganizationMember (githubAccessToken auditor) (orgName cfg)) lgs
          @ concat (map (\<lambda>lg. settled (removeMember gh cfg (githubAccessToken auditor) lg)) lgs)\<rparr>))"
  using assms
    removeMember_batch [of gh cfg "githubAccessToken auditor"
      "map username (User_findAll (inactiveWhere c) (users s))" s]
  by (simp add: revokeMembershipForInactiveUsers_def Let_def comp_def)

lemma revokeMembershipForInactiveUsers_invalid:
  assumes "User_findOne (orAdmin cfg a) (users s) = Some auditor"
    and "cutoff tz cfg now = None"
  shows "revokeMembershipForInactiveUsers gh cfg tz now a s = (Inl invalidDateError, s)"
  using assms by (simp add: revokeMembershipForInactiveUsers_def Let_def)

lemma inactiveWhere_iff:
  "inactiveWhere c u \<longleftrightarrow>
     isActive u \<and> (\<exists>t1 t2 t3. signedInAt u = Some t1 \<and> pushedAt u = Some t2 \<and> createdAt u = Some t3
                       \<and> t1 < c \<and> t2 < c \<and> t3 < c)"
  by (auto simp: inactiveWhere_def Op_lt_def split: option.splits)

text \<open>The cutoff, written out: the local time of \<open>now\<close>, less the days, taken back to UTC.\<close>

lemma cutoff_eq:
  "cutoff tz cfg now =
     (let wall = now + tz now True - maxDaysSinceLogin cfg * 86400000;
          c = (if maxDaysSinceLogin cfg = 0 then now else wall - tz wall False)
      in if abs c \<le> 8640000000000000 then Some c else None)"
  by (simp add: cutoff_def subtractDays_def TimeClip_def UTC_def LocalTime_def msPerDay_def Let_def)

text \<open>
  Across the change of the clocks of the second zone, 90 days back from the time
  3636000000 are 90 times 24 hours less one hour.
\<close>

lemma cutoff_across_clock_change:
  "cutoff clockChangeZone exampleConfig 3636000000 = Some (3636000000 - 90 * 86400000 + 3600000)"
  by (simp add: cutoff_eq clockChangeZone_def exampleConfig_def)

text \<open>
  C8. Let \<open>c\<close> be the cutoff: \<open>now\<close> when maxDaysSinceLogin is 0, and otherwise the time
  whose local time is the local time of \<open>now\<close> less maxDaysSinceLogin days of 86400000
  milliseconds (in a zone whose offset does not change in between, \<open>now\<close> less that many
  times 24 hours). When the auditor's row exists and \<open>c\<close> is a date,
  \<^verbatim>\<open>revokeMembershipForInactiveUsers\<close> requests the removal of exactly the roster entries
  that are active and whose signedInAt, pushedAt and createdAt are all set and strictly
  before \<open>c\<close>, one request for each, in table order; in particular an active entry whose
  signedInAt and pushedAt are before \<open>c\<close> and whose createdAt is not is never among the
  selected rows. When \<open>c\<close> is out of the range of dates, the query is refused and nothing
  is requested.
\<close>

theorem revokeMembershipForInactiveUsers_selection:
  assumes "User_findOne (orAdmin cfg a) (users s) = Some auditor"
    and "wall = now + tz now True - maxDaysSinceLogin cfg * 86400000"
    and "c = (if maxDaysSinceLogin cfg = 0 then now else wall - tz wall False)"
  shows "(abs c \<le> 8640000000000000 \<longrightarrow>
            removals (trace (snd (revokeMembershipForInactiveUsers gh cfg tz now a s))) =
              removals (trace s) @
              map (\<lambda>u. RemoveOrganizationMember (githubAccessToken auditor) (orgName cfg) (username u))
                (filter (\<lambda>u. isActive u \<and>
                     (\<exists>t1 t2 t3. signedInAt u = Some t1 \<and> pushedAt u = Some t2
                        \<and> createdAt u = Some t3 \<and> t1 < c \<and> t2 < c \<and> t3 < c))
                   (users s))
            \<and> (\<forall>u t1 t2 t3. isActive u \<and> signedInAt u = Some t1 \<and> t1 < c
                   \<and> pushedAt u = Some t2 \<and> t2 < c \<and> createdAt u = Some t3 \<and> c \<le> t3
                 \<longrightarrow> u \<notin> set (User_findAll (inactiveWhere c) (users s))))
       \<and> (8640000000000000 < abs c \<longrightarrow>
            revokeMembershipForInactiveUsers gh cfg tz now a s = (Inl invalidDateError, s))"
proof (cases "abs c \<le> 8640000000000000")
  case True
  then have valid: "cutoff tz cfg now = Some c"
    using assms(2,3) by (auto simp: cutoff_eq Let_def)
  have sel: "User_findAll (inactiveWhere c) (users s) =
      filter (\<lambda>u. isActive u \<and>
                  (\<exists>t1 t2 t3. signedInAt u = Some t1 \<and> pushedAt u = Some t2
                     \<and> createdAt u = Some t3 \<and> t1 < c \<and> t2 < c \<and> t3 < c))
        (users s)"
    unfolding User_findAll_def by (rule filter_cong) (auto simp: inactiveWhere_iff)
  define lgs where "lgs = map username (User_findAll (inactiveWhere c) (users s))"
  have "removals (trace (snd (revokeMembershipForInactiveUsers gh cfg tz now a s))) =
      removals (trace s) @
      map (RemoveOrganizationMember (githubAccessToken auditor) (orgName cfg)) lgs"
    unfolding revokeMembershipForInactiveUsers_run [OF assms(1) valid] Let_def lgs_def [symmetric]
    by (simp add: removals_append removals_requests removals_settled)
  then have first: "removals (trace (snd (revokeMembershipForInactiveUsers gh cfg tz now a s))) =
      removals (trace s) @
      map (\<lambda>u. RemoveOrganizationMember (githubAccessToken auditor) (orgName cfg) (username u))
        (User_findAll (inactiveWhere c) (users s))"
    by (simp add: lgs_def comp_def)
  have second: "u \<notin> set (User_findAll (inactiveWhere c) (users s))"
    if "createdAt u = Some t3" "c \<le> t3" for u t3
    using that by (simp add: User_findAll_def inactiveWhere_def Op_lt_def)
  from first second True show ?thesis
    unfolding sel [symmetric] by auto
next
  case False
  then have "cutoff tz cfg now = None"
    using assms(2,3) by (auto simp: cutoff_eq Let_def)
  from revokeMembershipForInactiveUsers_invalid [OF assms(1) this] False show ?thesis
    by simp
qed

text \<open>
  C5. When the selected stale entries are three and GitHub rejects the removal of the
  second with \<open>e\<close> and accepts the other two, all three removals are requested, exactly
  one failure event is sent, carrying \<open>e\<close>, the second login and the action
  removeOrgMember, and the operation resolves.
\<close>

theorem revokeMembershipForInactiveUsers_partial_failure:
  assumes auditor: "User_findOne (orAdmin cfg a) (users s) = Some auditor"
    and valid: "cutoff tz cfg now = Some c"
    and selected: "User_findAll (inactiveWhere c) (users s) = [u1, u2, u3]"
    and first: "removal gh (githubAccessToken auditor) (orgName cfg) (username u1) = Inr ()"
    and second: "removal gh (githubAccessToken auditor) (orgName cfg) (username u2) = Inl e"
    and third: "removal gh (githubAccessToken auditor) (orgName cfg) (username u3) = Inr ()"
  shows "fst (revokeMembershipForInactiveUsers gh cfg tz now a s) = Inr [(), (), ()]
    \<and> removals (trace (snd (revokeMembershipForInactiveUsers gh cfg tz now a s))) =
        removals (trace s) @
        [RemoveOrganizationMember (githubAccessToken auditor) (orgName cfg) (username u1),
         RemoveOrganizationMember (githubAccessToken auditor) (orgName cfg) (username u2),
         RemoveOrganizationMember (githubAccessToken auditor) (orgName cfg) (username u3)]
    \<and> errorEvents (trace (snd (revokeMembershipForInactiveUsers gh cfg tz now a s))) =
        errorEvents (trace s) @ [ErrorEvent FEDERALIST_USERS e (username u2) ''removeOrgMember'']"
  by (simp add: revokeMembershipForInactiveUsers_run [OF auditor valid] selected Let_def
      settled_removeMember first second third removals_append errorEvents_append
      removals_Cons errorEvents_Cons removals_def [of "[]"] errorEvents_def [of "[]"])

text \<open>
  C8, in UTC at now = 8000000000. With 90 days the cutoff is 8000000000 - 90 * 86400000
  = 224000000: the entries a, with all three timestamps old, and e, created one
  millisecond before the cutoff, are removed; the entry d, created at the cutoff, is not
  selected. With 200000000 days the cutoff is not a date: the operation rejects and
  requests nothing.
\<close>

theorem revokeMembershipForInactiveUsers_selection_witness:
  "removals (trace (snd (revokeMembershipForInactiveUsers (exampleGitHub [] [] [] [] [])
      exampleConfig utcZone 8000000000 None
      (exampleState [exampleUser 1 ''a'' True (Some 5) (Some 6) (Some 7),
                     exampleUser 2 ''d'' True (Some 5) (Some 6) (Some 224000000),
                     exampleUser 3 ''e'' True (Some 5) (Some 6) (Some 223999999)])))) =
     [RemoveOrganizationMember (Some ''token'') ''federalist-users'' ''a'',
      RemoveOrganizationMember (Some ''token'') ''federalist-users'' ''e'']
   \<and> exampleUser 2 ''d'' True (Some 5) (Some 6) (Some 224000000) \<notin>
       set (User_findAll (inactiveWhere (8000000000 - 90 * 86400000))
         (users (exampleState [exampleUser 1 ''a'' True (Some 5) (Some 6) (Some 7),
                     exampleUser 2 ''d'' True (Some 5) (Some 6) (Some 224000000),
                     exampleUser 3 ''e'' True (Some 5) (Some 6) (Some 223999999)])))
   \<and> revokeMembershipForInactiveUsers (exampleGitHub [] [] [] [] [])
        (exampleConfig\<lparr>maxDaysSinceLogin := 200000000\<rparr>) utcZone 8000000000 None
        (exampleState [exampleUser 1 ''a'' True (Some 5) (Some 6) (Some 7)]) =
      (Inl invalidDateError, exampleState [exampleUser 1 ''a'' True (Some 5) (Some 6) (Some 7)])"
proof -
  let ?s = "exampleState [exampleUser 1 ''a'' True (Some 5) (Some 6) (Some 7),
                     exampleUser 2 ''d'' True (Some 5) (Some 6) (Some 224000000),
                     exampleUser 3 ''e'' True (Some 5) (Some 6) (Some 223999999)]"
  let ?s' = "exampleState [exampleUser 1 ''a'' True (Some 5) (Some 6) (Some 7)]"
  let ?far = "exampleConfig\<lparr>maxDaysSinceLogin := 200000000\<rparr>"
  have auditor: "User_findOne (orAdmin exampleConfig None) (users ?s) =
      Some (exampleUser 0 ''admin'' True None None None)"
    by (simp add: User_findOne_def orAdmin_def example_defs)
  have auditor': "User_findOne (orAdmin ?far None) (users ?s') =
      Some (exampleUser 0 ''admin'' True None None None)"
    by (simp add: User_findOne_def orAdmin_def example_defs)
  note run = revokeMembershipForInactiveUsers_selection
    [where tz = utcZone and now = 8000000000 and gh = "exampleGitHub [] [] [] [] []",
      OF auditor refl refl]
  note far = revokeMembershipForInactiveUsers_selection
    [where tz = utcZone and now = 8000000000 and gh = "exampleGitHub [] [] [] [] []",
      OF auditor' refl refl]
  have c: "(if maxDaysSinceLogin exampleConfig = 0 then 8000000000
      else 8000000000 + utcZone 8000000000 True - maxDaysSinceLogin exampleConfig * 86400000
        - utcZone (8000000000 + utcZone 8000000000 True
            - maxDaysSinceLogin exampleConfig * 86400000) False) = (224000000 :: int)"
    by (simp add: utcZone_def exampleConfig_def)
  have c': "(if maxDaysSinceLogin ?far = 0 then 8000000000
      else 8000000000 + utcZone 8000000000 True - maxDaysSinceLogin ?far * 86400000
        - utcZone (8000000000 + utcZone 8000000000 True
            - maxDaysSinceLogin ?far * 86400000) False) = (- 17279992000000000 :: int)"
    by (simp add: utcZone_def exampleConfig_def)
  have "removals (trace (snd (revokeMembershipForInactiveUsers (exampleGitHub [] [] [] [] [])
      exampleConfig utcZone 8000000000 None ?s))) =
     [RemoveOrganizationMember (Some ''token'') ''federalist-users'' ''a'',
      RemoveOrganizationMember (Some ''token'') ''federalist-users'' ''e'']"
    using run [unfolded c, THEN conjunct1, rule_format, THEN conjunct1]
    by (simp add: example_defs removals_def)
  moreover have "exampleUser 2 ''d'' True (Some 5) (Some 6) (Some 224000000) \<notin>
       set (User_findAll (inactiveWhere (8000000000 - 90 * 86400000)) (users ?s))"
    using run [unfolded c, THEN conjunct1, rule_format, THEN conjunct2, rule_format,
        of "exampleUser 2 ''d'' True (Some 5) (Some 6) (Some 224000000)" 5 6 224000000]
    by (simp add: example_defs)
  moreover have "revokeMembershipForInactiveUsers (exampleGitHub [] [] [] [] []) ?far utcZone
      8000000000 None ?s' = (Inl invalidDateError, ?s')"
    using far [unfolded c', THEN conjunct2] by simp
  ultimately show ?thesis by simp
qed

text \<open>C5, in UTC, on the stale entries a, b and c, where GitHub rejects the removal of b.\<close>

theorem revokeMembershipForInactiveUsers_partial_failure_witness:
  "fst (revokeMembershipForInactiveUsers (exampleGitHub [] [] [] [] [''b''])
      exampleConfig utcZone 8000000000 None
      (exampleState [exampleUser 1 ''a'' True (Some 5) (Some 6) (Some 7),
                     exampleUser 2 ''b'' True (Some 5) (Some 6) (Some 7),
                     exampleUser 3 ''c'' True (Some 5) (Some 6) (Some 7)])) = Inr [(), (), ()]
   \<and> removals (trace (snd (revokeMembershipForInactiveUsers (exampleGitHub [] [] [] [] [''b''])
      exampleConfig utcZone 8000000000 None
      (exampleState [exampleUser 1 ''a'' True (Some 5) (Some 6) (Some 7),
                     exampleUser 2 ''b'' True (Some 5) (Some 6) (Some 7),
                     exampleUser 3 ''c'' True (Some 5) (Some 6) (Some 7)])))) =
       [RemoveOrganizationMember (Some ''token'') ''federalist-users'' ''a'',
        RemoveOrganizationMember (Some ''token'') ''federalist-users'' ''b'',
        RemoveOrganizationMember (Some ''token'') ''federalist-users'' ''c'']
   \<and> errorEvents (trace (snd (revokeMembershipForInactiveUsers (exampleGitHub [] [] [] [] [''b''])
      exampleConfig utcZone 8000000000 None
      (exampleState [exampleUser 1 ''a'' True (Some 5) (Some 6) (Some 7),
                     exampleUser 2 ''b'' True (Some 5) (Some 6) (Some 7),
                     exampleUser 3 ''c'' True (Some 5) (Some 6) (Some 7)])))) =
       [ErrorEvent FEDERALIST_USERS (Error ''HttpError'' ''Forbidden'') ''b'' ''removeOrgMember'']"
proof -
  let ?s = "exampleState [exampleUser 1 ''a'' True (Some 5) (Some 6) (Some 7),
                     exampleUser 2 ''b'' True (Some 5) (Some 6) (Some 7),
                     exampleUser 3 ''c'' True (Some 5) (Some 6) (Some 7)]"
  let ?gh = "exampleGitHub [] [] [] [] [''b'']"
  let ?auditor = "exampleUser 0 ''admin'' True None None None"
  have auditor: "User_findOne (orAdmin exampleConfig None) (users ?s) = Some ?auditor"
    by (simp add: User_findOne_def orAdmin_def example_defs)
  have valid: "cutoff utcZone exampleConfig 8000000000 = Some 224000000"
    by (simp add: cutoff_eq utcZone_def exampleConfig_def)
  have selected: "User_findAll (inactiveWhere 224000000) (users ?s) =
      [exampleUser 1 ''a'' True (Some 5) (Some 6) (Some 7),
       exampleUser 2 ''b'' True (Some 5) (Some 6) (Some 7),
       exampleUser 3 ''c'' True (Some 5) (Some 6) (Some 7)]"
    by (simp add: User_findAll_def inactiveWhere_def Op_lt_def example_defs)
  have first: "removal ?gh (githubAccessToken ?auditor) (orgName exampleConfig)
      (username (exampleUser 1 ''a'' True (Some 5) (Some 6) (Some 7))) = Inr ()"
    by (simp add: example_defs)
  have second: "removal ?gh (githubAccessToken ?auditor) (orgName exampleConfig)
      (username (exampleUser 2 ''b'' True (Some 5) (Some 6) (Some 7))) =
      Inl (Error ''HttpError'' ''Forbidden'')"
    by (simp add: example_defs)
  have third: "removal ?gh (githubAccessToken ?auditor) (orgName exampleConfig)
      (username (exampleUser 3 ''c'' True (Some 5) (Some 6) (Some 7))) = Inr ()"
    by (simp add: example_defs)
  show ?thesis
    using revokeMembershipForInactiveUsers_partial_failure
      [OF auditor valid selected first second third]
    by (simp add: example_defs removals_def errorEvents_def)
qed

subsection \<open>Refresh activity status\<close>

lemma auditEvents_audits:
  "auditEvents (map (\<lambda>row. AuditEvent l (f row) (g row)) rows) =
     map (\<lambda>row. AuditEvent l (f row) (g row)) rows"
  by (induction rows) (simp_all add: auditEvents_def)

text \<open>The second update sees the table the first one left: the rows it selects are the same.\<close>

lemma second_update_rows:
  "filter (\<lambda>u. username u \<notin> S \<and> isActive u)
     (map (\<lambda>u. if username u \<in> S \<and> \<not> isActive u then u\<lparr>isActive := True\<rparr> else u) us) =
   filter (\<lambda>u. username u \<notin> S \<and> isActive u) us"
  by (induction us) auto

lemma both_updates_table:
  "map (\<lambda>u. if username u \<notin> S \<and> isActive u then u\<lparr>isActive := False\<rparr> else u)
     (map (\<lambda>u. if username u \<in> S \<and> \<not> isActive u then u\<lparr>isActive := True\<rparr> else u) us) =
   map (\<lambda>u. if username u \<in> S \<and> \<not> isActive u then u\<lparr>isActive := True\<rparr>
            else if username u \<notin> S \<and> isActive u then u\<lparr>isActive := False\<rparr> else u) us"
  by (induction us) auto

lemma refreshIsActiveUsers_run:
  assumes "User_findOne (defaultAdmin cfg a) (users s) = Some auditor"
    and "organizationMembers gh (githubAccessToken auditor) (orgName cfg) None = Inr E"
  shows "refreshIsActiveUsers gh cfg a s =
     (let L = map (\<lambda>m. toLowerCase (login m)) E in
      (Inr (),
       s\<lparr>users := map (\<lambda>u. if username u \<in> set L \<and> \<not> isActive u then u\<lparr>isActive := True\<rparr>
                           else if username u \<notin> set L \<and> isActive u then u\<lparr>isActive := False\<rparr>
                           else u) (users s),
         trace := trace s
           @ [GetOrganizationMembers (githubAccessToken auditor) (orgName cfg) None,
              UserUpdate True True L]
           @ map (\<lambda>u. AuditEvent UPDATED (userId u, True) True)
               (filter (\<lambda>u. username u \<in> set L \<and> \<not> isActive u) (users s))
           @ [UserUpdate False False L]
           @ map (\<lambda>u. AuditEvent UPDATED (userId u, False) False)
               (filter (\<lambda>u. username u \<notin> set L \<and> isActive u) (users s))\<rparr>))"
  using assms
  apply (simp add: refreshIsActiveUsers_def Let_def await_getOrganizationMembers User_update_def
      emit_def second_update_rows both_updates_table del: map_map)
  apply (simp add: comp_def)
  done

text \<open>
  C3 (as amended). When the auditor's row exists and GitHub answers with the member list
  \<open>E\<close>, whose lower-cased logins are \<open>L\<close>, one run of \<^verbatim>\<open>refreshIsActiveUsers\<close> sets
  isActive to true on exactly the rows whose username, as it is stored, is an element of
  \<open>L\<close> and that were inactive, to false on exactly the rows whose stored username is not
  an element of \<open>L\<close> and that were active, leaves every other row as it was, and sends
  one audit event, carrying the new isActive, for each row it changed: first for the
  activated rows, then for the deactivated ones. The stored username is not lower-cased
  before it is looked up in \<open>L\<close>.
\<close>

theorem refreshIsActiveUsers_transitions:
  assumes "User_findOne (defaultAdmin cfg a) (users s) = Some auditor"
    and "organizationMembers gh (githubAccessToken auditor) (orgName cfg) None = Inr E"
    and "L = map (\<lambda>m. toLowerCase (login m)) E"
  shows "users (snd (refreshIsActiveUsers gh cfg a s)) =
           map (\<lambda>u. if username u \<in> set L \<and> \<not> isActive u then u\<lparr>isActive := True\<rparr>
                    else if username u \<notin> set L \<and> isActive u then u\<lparr>isActive := False\<rparr>
                    else u) (users s)
       \<and> auditEvents (trace (snd (refreshIsActiveUsers gh cfg a s))) =
           auditEvents (trace s)
           @ map (\<lambda>u. AuditEvent UPDATED (userId u, True) True)
               (filter (\<lambda>u. username u \<in> set L \<and> \<not> isActive u) (users s))
           @ map (\<lambda>u. AuditEvent UPDATED (userId u, False) False)
               (filter (\<lambda>u. username u \<notin> set L \<and> isActive u) (users s))"
  unfolding refreshIsActiveUsers_run [OF assms(1,2)] Let_def assms(3) [symmetric]
  by (simp add: auditEvents_append auditEvents_Cons auditEvents_audits auditEvents_def [of "[]"])

lemma refreshIsActiveUsers_missing:
  "User_findOne (defaultAdmin cfg a) (users s) = None \<Longrightarrow>
     refreshIsActiveUsers gh cfg a s = (Inl nullTypeError, s)"
  by (simp add: refreshIsActiveUsers_def)

lemma refreshIsActiveUsers_rejected:
  "User_findOne (defaultAdmin cfg a) (users s) = Some auditor \<Longrightarrow>
   organizationMembers gh (githubAccessToken auditor) (orgName cfg) None = Inl e \<Longrightarrow>
     refreshIsActiveUsers gh cfg a s =
       (Inl e, s\<lparr>trace := trace s @
          [GetOrganizationMembers (githubAccessToken auditor) (orgName cfg) None]\<rparr>)"
  by (simp add: refreshIsActiveUsers_def await_getOrganizationMembers)

lemma User_findOne_map:
  "(\<And>u. username (f u) = username u) \<Longrightarrow>
     User_findOne n (map f us) = map_option f (User_findOne n us)"
  by (induction us) (simp_all add: User_findOne_def)

text \<open>
  C4. Whatever the roster and whatever GitHub answers, a second run of
  \<^verbatim>\<open>refreshIsActiveUsers\<close> right after a first one, against the same answers, leaves the
  roster as the first run left it and sends no audit event.
\<close>

theorem refreshIsActiveUsers_idempotent:
  "users (snd (refreshIsActiveUsers gh cfg a (snd (refreshIsActiveUsers gh cfg a s)))) =
     users (snd (refreshIsActiveUsers gh cfg a s))
   \<and> auditEvents (trace (snd (refreshIsActiveUsers gh cfg a (snd (refreshIsActiveUsers gh cfg a s))))) =
     auditEvents (trace (snd (refreshIsActiveUsers gh cfg a s)))"
proof (cases "User_findOne (defaultAdmin cfg a) (users s)")
  case None
  then show ?thesis by (simp add: refreshIsActiveUsers_missing)
next
  case (Some auditor)
  show ?thesis
  proof (cases "organizationMembers gh (githubAccessToken auditor) (orgName cfg) None")
    case (Inl e)
    let ?s1 = "s\<lparr>trace := trace s @
          [GetOrganizationMembers (githubAccessToken auditor) (orgName cfg) None]\<rparr>"
    have first: "refreshIsActiveUsers gh cfg a s = (Inl e, ?s1)"
      by (rule refreshIsActiveUsers_rejected [OF Some Inl])
    have "User_findOne (defaultAdmin cfg a) (users ?s1) = Some auditor"
      using Some by simp
    from refreshIsActiveUsers_rejected [OF this Inl] first show ?thesis
      by (simp add: auditEvents_append auditEvents_Cons auditEvents_def [of "[]"])
  next
    case (Inr E)
    define L where "L = map (\<lambda>m. toLowerCase (login m)) E"
    define g :: "user \<Rightarrow> user" where "g = (\<lambda>u. if username u \<in> set L \<and> \<not> isActive u then u\<lparr>isActive := True\<rparr>
                           else if username u \<notin> set L \<and> isActive u then u\<lparr>isActive := False\<rparr>
                           else u)"
    define s1 where "s1 = snd (refreshIsActiveUsers gh cfg a s)"
    have g_username: "username (g u) = username u" for u
      by (simp add: g_def)
    have g_token: "githubAccessToken (g u) = githubAccessToken u" for u
      by (simp add: g_def)
    have g_in: "username u \<in> set L \<Longrightarrow> isActive (g u)" for u
      by (simp add: g_def)
    have g_out: "username u \<notin> set L \<Longrightarrow> \<not> isActive (g u)" for u
      by (simp add: g_def)
    have users1: "users s1 = map g (users s)"
      unfolding s1_def refreshIsActiveUsers_run [OF Some Inr] Let_def L_def [symmetric] g_def
      by simp
    have auditor1: "User_findOne (defaultAdmin cfg a) (users s1) = Some (g auditor)"
      by (simp add: users1 User_findOne_map [of g, OF g_username] Some)
    have members1: "organizationMembers gh (githubAccessToken (g auditor)) (orgName cfg) None = Inr E"
      by (simp add: g_token Inr)
    have none_in: "filter (\<lambda>u. username u \<in> set L \<and> \<not> isActive u) (map g us) = []" for us
      by (induction us) (auto simp: g_username dest: g_in)
    have none_out: "filter (\<lambda>u. username u \<notin> set L \<and> isActive u) (map g us) = []" for us
      by (induction us) (auto simp: g_username dest: g_out)
    have fixed: "map g (map g us) = map g us" for us
      by (induction us) (simp_all add: g_def)
    have "users (snd (refreshIsActiveUsers gh cfg a s1)) = users s1
      \<and> auditEvents (trace (snd (refreshIsActiveUsers gh cfg a s1))) = auditEvents (trace s1)"
      unfolding refreshIsActiveUsers_run [OF auditor1 members1] Let_def L_def [symmetric]
        g_def [symmetric]
      by (simp add: users1 fixed none_in none_out auditEvents_append auditEvents_Cons
          auditEvents_def [of "[]"] del: map_map)
    then show ?thesis by (simp add: s1_def)
  qed
qed

text \<open>
  C3, on the roster admin (active), jane (inactive) and bob (active) and the members
  Admin and Jane: jane is activated, bob is deactivated, admin stays, and the two
  changes are reported.
\<close>

theorem refreshIsActiveUsers_transitions_witness:
  "map isActive (users (snd (refreshIsActiveUsers (exampleGitHub [] [] [''Admin'', ''Jane''] [] [])
      exampleConfig None
      (exampleState [exampleUser 1 ''jane'' False None None None,
                     exampleUser 2 ''bob'' True None None None])))) = [True, True, False]
   \<and> auditEvents (trace (snd (refreshIsActiveUsers (exampleGitHub [] [] [''Admin'', ''Jane''] [] [])
      exampleConfig None
      (exampleState [exampleUser 1 ''jane'' False None None None,
                     exampleUser 2 ''bob'' True None None None])))) =
       [AuditEvent UPDATED (1, True) True, AuditEvent UPDATED (2, False) False]"
proof -
  let ?s = "exampleState [exampleUser 1 ''jane'' False None None None,
                     exampleUser 2 ''bob'' True None None None]"
  let ?gh = "exampleGitHub [] [] [''Admin'', ''Jane''] [] []"
  have auditor: "User_findOne (defaultAdmin exampleConfig None) (users ?s) =
      Some (exampleUser 0 ''admin'' True None None None)"
    by (simp add: User_findOne_def defaultAdmin_def example_defs)
  have members: "organizationMembers ?gh
      (githubAccessToken (exampleUser 0 ''admin'' True None None None)) (orgName exampleConfig) None =
      Inr [\<lparr>login = ''Admin''\<rparr>, \<lparr>login = ''Jane''\<rparr>]"
    by (simp add: example_defs)
  show ?thesis
    using refreshIsActiveUsers_transitions [OF auditor members refl]
    by (simp add: toLowerCase_examples example_defs auditEvents_def)
qed

text \<open>
  C3 as the specification states it, with the lower-cased match of its source sentence,
  fails: on the roster admin (active), Jane (inactive) and Bob (active) and the members
  admin, jane and bob, the lower-cased usernames of Jane and Bob are in \<open>L\<close>, and yet the
  run does not activate Jane, deactivates Bob, and reports the deactivation of Bob.
\<close>

theorem refreshIsActiveUsers_lower_cased_match_counterexample:
  "toLowerCase ''Jane'' \<in> set (map toLowerCase [''admin'', ''jane'', ''bob''])
   \<and> toLowerCase ''Bob'' \<in> set (map toLowerCase [''admin'', ''jane'', ''bob''])
   \<and> map (\<lambda>u. (username u, isActive u))
       (users (snd (refreshIsActiveUsers (exampleGitHub [] [] [''admin'', ''jane'', ''bob''] [] [])
          exampleConfig None
          (exampleState [exampleUser 1 ''Jane'' False None None None,
                         exampleUser 2 ''Bob'' True None None None])))) =
       [(''admin'', True), (''Jane'', False), (''Bob'', False)]
   \<and> auditEvents (trace (snd (refreshIsActiveUsers
          (exampleGitHub [] [] [''admin'', ''jane'', ''bob''] [] [])
          exampleConfig None
          (exampleState [exampleUser 1 ''Jane'' False None None None,
                         exampleUser 2 ''Bob'' True None None None])))) =
       [AuditEvent UPDATED (2, False) False]"
proof -
  have lower: "toLowerCase ''bob'' = ''bob''"
    by code_simp
  show ?thesis
    by (simp add: refreshIsActiveUsers_def User_findOne_def User_update_def defaultAdmin_def
        Let_def await_getOrganizationMembers emit_def toLowerCase_examples lower example_defs
        auditEvents_def)
qed

text \<open>C4, on the same roster and members: the second run changes nothing and reports nothing.\<close>

theorem refreshIsActiveUsers_idempotent_witness:
  "map isActive (users (snd (refreshIsActiveUsers (exampleGitHub [] [] [''Admin'', ''Jane''] [] [])
      exampleConfig None
      (snd (refreshIsActiveUsers (exampleGitHub [] [] [''Admin'', ''Jane''] [] []) exampleConfig None
        (exampleState [exampleUser 1 ''jane'' False None None None,
                       exampleUser 2 ''bob'' True None None None])))))) = [True, True, False]
   \<and> auditEvents (trace (snd (refreshIsActiveUsers (exampleGitHub [] [] [''Admin'', ''Jane''] [] [])
      exampleConfig None
      (snd (refreshIsActiveUsers (exampleGitHub [] [] [''Admin'', ''Jane''] [] []) exampleConfig None
        (exampleState [exampleUser 1 ''jane'' False None None None,
                       exampleUser 2 ''bob'' True None None None])))))) =
       [AuditEvent UPDATED (1, True) True, AuditEvent UPDATED (2, False) False]"
proof -
  let ?s = "exampleState [exampleUser 1 ''jane'' False None None None,
                     exampleUser 2 ''bob'' True None None None]"
  let ?gh = "exampleGitHub [] [] [''Admin'', ''Jane''] [] []"
  have first: "map isActive (users (snd (refreshIsActiveUsers ?gh exampleConfig None ?s))) =
        [True, True, False]
      \<and> auditEvents (trace (snd (refreshIsActiveUsers ?gh exampleConfig None ?s))) =
        [AuditEvent UPDATED (1, True) True, AuditEvent UPDATED (2, False) False]"
    by (simp add: refreshIsActiveUsers_def User_findOne_def User_update_def defaultAdmin_def
        Let_def await_getOrganizationMembers emit_def toLowerCase_examples example_defs auditEvents_def)
  show ?thesis
    using refreshIsActiveUsers_idempotent [of ?gh exampleConfig None ?s] first by simp
qed

subsection \<open>Letter case\<close>

lemma settled_removeMember_no_request:
  "RemoveOrganizationMember token' org lg' \<notin>
     set (concat (map (\<lambda>lg. settled (removeMember gh cfg token lg)) lgs))"
  by (induction lgs) (simp_all add: settled_removeMember split: sum.splits)

text \<open>
  C7 (as amended). Only the external login is lower-cased. A roster entry whose stored
  username is the lower-cased form of a member's login (jane for the member Jane)
  matches that member in both operations: after \<^verbatim>\<open>refreshIsActiveUsers\<close> the entry is
  active, and \<^verbatim>\<open>removeMembersWhoAreNotUsers\<close> sends no removal request for the login.
\<close>

theorem external_login_matched_lower_cased:
  assumes "User_findOne (defaultAdmin cfg a) (users s) = Some auditor"
    and "organizationMembers gh (githubAccessToken auditor) (orgName cfg) None = Inr E"
    and "User_findOne (orAdmin cfg a) (users s) = Some auditor'"
    and "organizationMembers gh (githubAccessToken auditor') (orgName cfg) None = Inr E"
    and "m \<in> set E"
    and "i < length (users s)"
    and "username (users s ! i) = toLowerCase (login m)"
  shows "isActive (users (snd (refreshIsActiveUsers gh cfg a s)) ! i)
    \<and> RemoveOrganizationMember (githubAccessToken auditor') (orgName cfg) (login m) \<notin>
        set (drop (length (trace s)) (trace (snd (removeMembersWhoAreNotUsers gh cfg a s))))"
proof -
  have inL: "username (users s ! i) \<in> set (map (\<lambda>m. toLowerCase (login m)) E)"
    using assms(5,7) by auto
  have active: "isActive (users (snd (refreshIsActiveUsers gh cfg a s)) ! i)"
    unfolding refreshIsActiveUsers_run [OF assms(1,2)] Let_def
    using assms(6) inL by simp
  have "toLowerCase (login m) \<in> set (map username (users s))"
    using assms(6,7) by (metis length_map nth_map nth_mem)
  then have "login m \<notin> set (filter (\<lambda>lg. toLowerCase lg \<notin> set (map username (users s))) (map login E))"
    by simp
  then have "RemoveOrganizationMember (githubAccessToken auditor') (orgName cfg) (login m) \<notin>
        set (drop (length (trace s)) (trace (snd (removeMembersWhoAreNotUsers gh cfg a s))))"
    unfolding removeMembersWhoAreNotUsers_run [OF assms(3,4)] Let_def
    by (simp add: settled_removeMember_no_request image_iff del: set_concat)
  with active show ?thesis by simp
qed

text \<open>C7, on the roster entry jane and the members Admin and Jane.\<close>

theorem external_login_matched_lower_cased_witness:
  "isActive (users (snd (refreshIsActiveUsers (exampleGitHub [] [] [''Admin'', ''Jane''] [] [])
      exampleConfig None (exampleState [exampleUser 1 ''jane'' True None None None]))) ! 1)
   \<and> RemoveOrganizationMember (Some ''token'') ''federalist-users'' ''Jane'' \<notin>
       set (trace (snd (removeMembersWhoAreNotUsers (exampleGitHub [] [] [''Admin'', ''Jane''] [] [])
         exampleConfig None (exampleState [exampleUser 1 ''jane'' True None None None]))))"
proof -
  let ?s = "exampleState [exampleUser 1 ''jane'' True None None None]"
  let ?gh = "exampleGitHub [] [] [''Admin'', ''Jane''] [] []"
  let ?auditor = "exampleUser 0 ''admin'' True None None None"
  have auditor: "User_findOne (defaultAdmin exampleConfig None) (users ?s) = Some ?auditor"
    by (simp add: User_findOne_def defaultAdmin_def example_defs)
  have auditor': "User_findOne (orAdmin exampleConfig None) (users ?s) = Some ?auditor"
    by (simp add: User_findOne_def orAdmin_def example_defs)
  have members: "organizationMembers ?gh (githubAccessToken ?auditor) (orgName exampleConfig) None =
      Inr [\<lparr>login = ''Admin''\<rparr>, \<lparr>login = ''Jane''\<rparr>]"
    by (simp add: example_defs)
  have m: "\<lparr>login = ''Jane''\<rparr> \<in> set [\<lparr>login = ''Admin''\<rparr>, \<lparr>login = ''Jane''\<rparr>]"
    by simp
  have i: "1 < length (users ?s)"
    by (simp add: example_defs)
  have name: "username (users ?s ! 1) = toLowerCase (login \<lparr>login = ''Jane''\<rparr>)"
    by (simp add: toLowerCase_examples example_defs)
  show ?thesis
    using external_login_matched_lower_cased [OF auditor members auditor' members m i name]
    by (simp add: example_defs)
qed

text \<open>
  C7 as the specification states it fails: the roster entry Jane does not match the
  member jane. \<^verbatim>\<open>refreshIsActiveUsers\<close> deactivates the entry although jane is a
  member, and \<^verbatim>\<open>removeMembersWhoAreNotUsers\<close> requests the removal of jane.
\<close>

theorem stored_username_case_counterexample:
  "map (\<lambda>u. (username u, isActive u))
     (users (snd (refreshIsActiveUsers (exampleGitHub [] [] [''admin'', ''jane''] [] [])
        exampleConfig None (exampleState [exampleUser 1 ''Jane'' True None None None])))) =
     [(''admin'', True), (''Jane'', False)]
   \<and> removals (trace (snd (removeMembersWhoAreNotUsers (exampleGitHub [] [] [''admin'', ''jane''] [] [])
        exampleConfig None (exampleState [exampleUser 1 ''Jane'' True None None None])))) =
     [RemoveOrganizationMember (Some ''token'') ''federalist-users'' ''jane'']"
  by (simp add: refreshIsActiveUsers_def removeMembersWhoAreNotUsers_def User_findOne_def
      User_findAll_def User_update_def defaultAdmin_def orAdmin_def Let_def
      await_getOrganizationMembers removeMember_batch emit_def settled_removeMember
      toLowerCase_examples example_defs removals_def)

subsection \<open>Prune non-member team users\<close>

lemma await_getTeamMembers_all:
  "await (Promise_all (map (\<lambda>team. GitHub_getTeamMembers gh token org team) ts)) s =
     (allOutcomes (map (teamMembers gh token org) ts),
      s\<lparr>trace := trace s @ map (GetTeamMembers token org) ts\<rparr>)"
proof -
  have iss: "concat (map (\<lambda>team. issued (GitHub_getTeamMembers gh token org team)) ts) =
      map (GetTeamMembers token org) ts"
    by (induction ts) (simp_all add: GitHub_getTeamMembers_def)
  have sett: "concat (map (\<lambda>team. settled (GitHub_getTeamMembers gh token org team)) ts) = []"
    by (induction ts) (simp_all add: GitHub_getTeamMembers_def)
  have out: "(\<lambda>team. outcome (GitHub_getTeamMembers gh token org team)) = teamMembers gh token org"
    by (simp add: GitHub_getTeamMembers_def fun_eq_iff)
  show ?thesis
    unfolding await_def Promise_all_def emit_def
    by (simp add: comp_def iss sett out del: concat_eq_Nil_conv)
qed

text \<open>The two nested loops visit the members of all teams in order and keep those in neither list.\<close>

lemma concat_nothing: "concat (map (\<lambda>x. []) xs) = []"
  by (induction xs) simp_all

lemma concat_if_singleton:
  "concat (map (\<lambda>x. if P x then [f x] else []) xs) = map f (filter P xs)"
  by (induction xs) simp_all

lemma removed18F_eq:
  "removed18F gh cfg token members18F adminFedUsers teams =
     map (\<lambda>member.
            \<lparr>issued = [RemoveOrganizationMember token (orgName cfg) (login member),
                       LoggerInfo (''federalist-users: removed user '' @ login member)],
             settled = [], outcome = removal gh token (orgName cfg) (login member)\<rparr>)
       (if members18F = [] then []
        else filter (\<lambda>member. login member \<notin> set members18F \<and> login member \<notin> set adminFedUsers)
               (concat teams))"
proof (cases "members18F = []")
  case True
  then show ?thesis by (simp add: removed18F_def)
next
  case False
  have "concat (map (\<lambda>team. map f (filter P team)) teams) = map f (filter P (concat teams))"
    for f :: "member \<Rightarrow> unit promise" and P
    by (induction teams) simp_all
  with False show ?thesis
    by (simp add: removed18F_def concat_if_singleton GitHub_removeOrganizationMember_def Let_def)
qed

lemma audit18F_run:
  assumes "User_findOne (orAdmin cfg a) (users s) = Some auditor"
    and "organizationMembers gh (githubAccessToken auditor) ''18F'' None = Inr refs"
    and "organizationMembers gh (githubAccessToken auditor) (orgName cfg) (Some ''admin'') = Inr admins"
    and "allOutcomes (map (teamMembers gh (githubAccessToken auditor) (orgName cfg))
           (case t of None \<Rightarrow> teams18F cfg | Some ts \<Rightarrow> ts)) = Inr teams"
  shows "audit18F gh cfg a t s =
     (let toRemove =
            (if map login refs = [] then []
             else filter (\<lambda>member. login member \<notin> set (map login refs)
                                   \<and> login member \<notin> set (map login admins)) (concat teams))
      in (allOutcomes (map (\<lambda>member. removal gh (githubAccessToken auditor) (orgName cfg) (login member))
                          toRemove),
          s\<lparr>trace := trace s
             @ [GetOrganizationMembers (githubAccessToken auditor) ''18F'' None,
                GetOrganizationMembers (githubAccessToken auditor) (orgName cfg) (Some ''admin'')]
             @ map (GetTeamMembers (githubAccessToken auditor) (orgName cfg))
                 (case t of None \<Rightarrow> teams18F cfg | Some ts \<Rightarrow> ts)
             @ concat (map (\<lambda>member.
                  [RemoveOrganizationMember (githubAccessToken auditor) (orgName cfg) (login member),
                   LoggerInfo (''federalist-users: removed user '' @ login member)]) toRemove)\<rparr>))"
  using assms
  apply (simp add: audit18F_def Let_def await_getOrganizationMembers await_getTeamMembers_all
      del: map_map set_map)
  apply (simp add: removed18F_eq await_def Promise_all_def emit_def comp_def concat_nothing
      del: set_map)
  done

lemma removals_team_requests: "removals (map (GetTeamMembers token org) ts) = []"
  by (induction ts) (simp_all add: removals_def)

lemma errorEvents_team_requests: "errorEvents (map (GetTeamMembers token org) ts) = []"
  by (induction ts) (simp_all add: errorEvents_def)

lemma removals_logged:
  "removals (concat (map (\<lambda>member. [RemoveOrganizationMember token org (login member),
                                        LoggerInfo (msg member)]) ms)) =
     map (\<lambda>member. RemoveOrganizationMember token org (login member)) ms"
  by (induction ms) (simp_all add: removals_def)

lemma errorEvents_logged:
  "errorEvents (concat (map (\<lambda>member. [RemoveOrganizationMember token org (login member),
                                        LoggerInfo (msg member)]) ms)) = []"
  by (induction ms) (simp_all add: errorEvents_def)

text \<open>
  C2. When the auditor's row exists and GitHub answers the query for the reference group
  (the members of 18F) with the empty list, \<^verbatim>\<open>audit18F\<close> sends no removal request,
  whatever the admins and the teams are and whether or not the later queries succeed.
\<close>

theorem audit18F_empty_reference_group:
  assumes "User_findOne (orAdmin cfg a) (users s) = Some auditor"
    and "organizationMembers gh (githubAccessToken auditor) ''18F'' None = Inr []"
  shows "removals (trace (snd (audit18F gh cfg a t s))) = removals (trace s)"
proof (cases "organizationMembers gh (githubAccessToken auditor) (orgName cfg) (Some ''admin'')")
  case (Inl e)
  with assms show ?thesis
    by (simp add: audit18F_def Let_def await_getOrganizationMembers removals_append removals_Cons
        removals_def [of "[]"])
next
  case admins: (Inr admins)
  show ?thesis
  proof (cases "allOutcomes (map (teamMembers gh (githubAccessToken auditor) (orgName cfg))
           (case t of None \<Rightarrow> teams18F cfg | Some ts \<Rightarrow> ts))")
    case (Inl e)
    with assms admins show ?thesis
      by (simp add: audit18F_def Let_def await_getOrganizationMembers await_getTeamMembers_all
          removals_append removals_Cons removals_team_requests)
  next
    case (Inr teams)
    show ?thesis
      unfolding audit18F_run [OF assms admins Inr]
      by (simp add: removals_append removals_Cons removals_team_requests)
  qed
qed

text \<open>
  C9. When every query succeeds, the reference group is not empty, and GitHub rejects
  the removal of a team member that is in neither list, \<^verbatim>\<open>audit18F\<close> rejects, with
  the rejection of one of its removal requests. Nothing is caught: no failure event is
  sent. Every removal request was sent before the batch was awaited.
\<close>

theorem audit18F_rejection_propagates:
  assumes "User_findOne (orAdmin cfg a) (users s) = Some auditor"
    and "organizationMembers gh (githubAccessToken auditor) ''18F'' None = Inr refs"
    and "organizationMembers gh (githubAccessToken auditor) (orgName cfg) (Some ''admin'') = Inr admins"
    and "allOutcomes (map (teamMembers gh (githubAccessToken auditor) (orgName cfg))
           (case t of None \<Rightarrow> teams18F cfg | Some ts \<Rightarrow> ts)) = Inr teams"
    and "refs \<noteq> []"
    and "m \<in> set (concat teams)"
    and "login m \<notin> set (map login refs)"
    and "login m \<notin> set (map login admins)"
    and "removal gh (githubAccessToken auditor) (orgName cfg) (login m) = Inl e"
  shows "(\<exists>e' m'. fst (audit18F gh cfg a t s) = Inl e' \<and> m' \<in> set (concat teams)
            \<and> removal gh (githubAccessToken auditor) (orgName cfg) (login m') = Inl e')
    \<and> errorEvents (trace (snd (audit18F gh cfg a t s))) = errorEvents (trace s)
    \<and> removals (trace (snd (audit18F gh cfg a t s))) =
        removals (trace s) @
        map (\<lambda>member. RemoveOrganizationMember (githubAccessToken auditor) (orgName cfg) (login member))
          (filter (\<lambda>member. login member \<notin> set (map login refs)
                             \<and> login member \<notin> set (map login admins)) (concat teams))"
proof -
  define toRemove where "toRemove = filter (\<lambda>member. login member \<notin> set (map login refs)
                             \<and> login member \<notin> set (map login admins)) (concat teams)"
  let ?outcomes = "map (\<lambda>member. removal gh (githubAccessToken auditor) (orgName cfg) (login member))
      toRemove"
  have run: "audit18F gh cfg a t s =
     (allOutcomes ?outcomes,
      s\<lparr>trace := trace s
         @ [GetOrganizationMembers (githubAccessToken auditor) ''18F'' None,
            GetOrganizationMembers (githubAccessToken auditor) (orgName cfg) (Some ''admin'')]
         @ map (GetTeamMembers (githubAccessToken auditor) (orgName cfg))
             (case t of None \<Rightarrow> teams18F cfg | Some ts \<Rightarrow> ts)
         @ concat (map (\<lambda>member.
              [RemoveOrganizationMember (githubAccessToken auditor) (orgName cfg) (login member),
               LoggerInfo (''federalist-users: removed user '' @ login member)]) toRemove)\<rparr>)"
    unfolding audit18F_run [OF assms(1-4)] Let_def toRemove_def using assms(5) by simp
  have "m \<in> set toRemove"
    using assms(6-8) by (simp add: toRemove_def)
  then have "Inl e \<in> set ?outcomes"
    using assms(9) by (force simp: image_iff)
  from allOutcomes_rejected [OF this]
  obtain e' where e': "allOutcomes ?outcomes = Inl e'" "Inl e' \<in> set ?outcomes"
    by blast
  from e'(2) obtain m' where m': "m' \<in> set toRemove"
      "removal gh (githubAccessToken auditor) (orgName cfg) (login m') = Inl e'"
    by (auto simp: image_iff)
  from m'(1) have "m' \<in> set (concat teams)"
    by (simp add: toRemove_def)
  with e'(1) m'(2)
  have "\<exists>e' m'. fst (audit18F gh cfg a t s) = Inl e' \<and> m' \<in> set (concat teams)
            \<and> removal gh (githubAccessToken auditor) (orgName cfg) (login m') = Inl e'"
    unfolding run by auto
  moreover have "errorEvents (trace (snd (audit18F gh cfg a t s))) = errorEvents (trace s)"
    unfolding run
    by (simp add: errorEvents_append errorEvents_Cons errorEvents_team_requests errorEvents_logged
        errorEvents_def [of "[]"])
  moreover have "removals (trace (snd (audit18F gh cfg a t s))) =
        removals (trace s) @
        map (\<lambda>member. RemoveOrganizationMember (githubAccessToken auditor) (orgName cfg) (login member))
          toRemove"
    unfolding run
    by (simp add: removals_append removals_Cons removals_team_requests removals_logged)
  ultimately show ?thesis
    unfolding toRemove_def by blast
qed

text \<open>
  C10. The two lists are searched with \<^verbatim>\<open>includes\<close>, which compares the logins as they
  are. When every query succeeds and the reference group is not empty, a team member
  whose login is different from every login of the reference group and from every admin
  login, be it only by the case of a letter, gets a removal request.
\<close>

theorem audit18F_case_sensitive:
  assumes "User_findOne (orAdmin cfg a) (users s) = Some auditor"
    and "organizationMembers gh (githubAccessToken auditor) ''18F'' None = Inr refs"
    and "organizationMembers gh (githubAccessToken auditor) (orgName cfg) (Some ''admin'') = Inr admins"
    and "allOutcomes (map (teamMembers gh (githubAccessToken auditor) (orgName cfg))
           (case t of None \<Rightarrow> teams18F cfg | Some ts \<Rightarrow> ts)) = Inr teams"
    and "refs \<noteq> []"
    and "m \<in> set (concat teams)"
    and "\<forall>r \<in> set (map login refs) \<union> set (map login admins). login m \<noteq> r"
  shows "RemoveOrganizationMember (githubAccessToken auditor) (orgName cfg) (login m) \<in>
           set (removals (drop (length (trace s)) (trace (snd (audit18F gh cfg a t s)))))"
proof -
  define toRemove where "toRemove = filter (\<lambda>member. login member \<notin> set (map login refs)
                             \<and> login member \<notin> set (map login admins)) (concat teams)"
  have "m \<in> set toRemove"
    using assms(6,7) by (auto simp: toRemove_def)
  then have "RemoveOrganizationMember (githubAccessToken auditor) (orgName cfg) (login m) \<in>
      set (map (\<lambda>member. RemoveOrganizationMember (githubAccessToken auditor) (orgName cfg)
                  (login member)) toRemove)"
    by (simp add: image_iff) blast
  then show ?thesis
    unfolding audit18F_run [OF assms(1-4)] Let_def toRemove_def [symmetric] using assms(5)
    by (simp add: removals_append removals_Cons removals_team_requests removals_logged
        del: set_map)
qed

text \<open>
  C2, with an empty reference group, the admin admin and the team members bob and carol:
  nobody is removed.
\<close>

theorem audit18F_empty_reference_group_witness:
  "removals (trace (snd (audit18F (exampleGitHub [] [''admin''] [] [''bob'', ''carol''] [])
      exampleConfig None None (exampleState [])))) = []"
proof -
  let ?gh = "exampleGitHub [] [''admin''] [] [''bob'', ''carol''] []"
  let ?auditor = "exampleUser 0 ''admin'' True None None None"
  have auditor: "User_findOne (orAdmin exampleConfig None) (users (exampleState [])) = Some ?auditor"
    by (simp add: User_findOne_def orAdmin_def example_defs)
  have refs: "organizationMembers ?gh (githubAccessToken ?auditor) ''18F'' None = Inr []"
    by (simp add: example_defs)
  show ?thesis
    using audit18F_empty_reference_group [OF auditor refs, where t = None]
    by (simp add: example_defs removals_def)
qed

text \<open>
  C9, with the reference group alice, the admin admin and the team members alice, bob
  and carol, where GitHub rejects the removal of bob: both removals are requested, the
  operation rejects with GitHub's error, and no failure event is sent.
\<close>

theorem audit18F_rejection_propagates_witness:
  "fst (audit18F (exampleGitHub [''alice''] [''admin''] [] [''alice'', ''bob'', ''carol''] [''bob''])
      exampleConfig None None (exampleState [])) = Inl (Error ''HttpError'' ''Forbidden'')
   \<and> errorEvents (trace (snd (audit18F
        (exampleGitHub [''alice''] [''admin''] [] [''alice'', ''bob'', ''carol''] [''bob''])
        exampleConfig None None (exampleState [])))) = []
   \<and> removals (trace (snd (audit18F
        (exampleGitHub [''alice''] [''admin''] [] [''alice'', ''bob'', ''carol''] [''bob''])
        exampleConfig None None (exampleState [])))) =
       [RemoveOrganizationMember (Some ''token'') ''federalist-users'' ''bob'',
        RemoveOrganizationMember (Some ''token'') ''federalist-users'' ''carol'']"
proof -
  let ?gh = "exampleGitHub [''alice''] [''admin''] [] [''alice'', ''bob'', ''carol''] [''bob'']"
  let ?auditor = "exampleUser 0 ''admin'' True None None None"
  let ?teams = "[[\<lparr>login = ''alice''\<rparr>, \<lparr>login = ''bob''\<rparr>, \<lparr>login = ''carol''\<rparr>]]"
  have auditor: "User_findOne (orAdmin exampleConfig None) (users (exampleState [])) = Some ?auditor"
    by (simp add: User_findOne_def orAdmin_def example_defs)
  have refs: "organizationMembers ?gh (githubAccessToken ?auditor) ''18F'' None =
      Inr [\<lparr>login = ''alice''\<rparr>]"
    by (simp add: example_defs)
  have admins: "organizationMembers ?gh (githubAccessToken ?auditor) (orgName exampleConfig)
      (Some ''admin'') = Inr [\<lparr>login = ''admin''\<rparr>]"
    by (simp add: example_defs)
  have teams: "allOutcomes (map (teamMembers ?gh (githubAccessToken ?auditor) (orgName exampleConfig))
      (case None of None \<Rightarrow> teams18F exampleConfig | Some ts \<Rightarrow> ts)) = Inr ?teams"
    by (simp add: example_defs)
  have nonempty: "[\<lparr>login = ''alice''\<rparr>] \<noteq> []"
    by simp
  have m: "\<lparr>login = ''bob''\<rparr> \<in> set (concat ?teams)"
    by simp
  have outside: "login \<lparr>login = ''bob''\<rparr> \<notin> set (map login [\<lparr>login = ''alice''\<rparr>])"
      "login \<lparr>login = ''bob''\<rparr> \<notin> set (map login [\<lparr>login = ''admin''\<rparr>])"
    by simp_all
  have rejected: "removal ?gh (githubAccessToken ?auditor) (orgName exampleConfig)
      (login \<lparr>login = ''bob''\<rparr>) = Inl (Error ''HttpError'' ''Forbidden'')"
    by (simp add: example_defs)
  note run = audit18F_rejection_propagates
    [OF auditor refs admins teams nonempty m outside rejected]
  from run [THEN conjunct1] obtain e' and m' :: member where
    e': "fst (audit18F ?gh exampleConfig None None (exampleState [])) = Inl e'"
      "removal ?gh (githubAccessToken ?auditor) (orgName exampleConfig) (login m') = Inl e'"
    by blast
  from e'(2) have "e' = Error ''HttpError'' ''Forbidden''"
    by (simp add: example_defs split: if_splits)
  with e'(1) run [THEN conjunct2] show ?thesis
    by (simp add: example_defs removals_def errorEvents_def)
qed

text \<open>
  C10, with the reference group alice, the admin admin and the team members Alice and
  alice: Alice, which is alice but for the case of one letter, is removed.
\<close>

theorem audit18F_case_sensitive_witness:
  "toLowerCase ''Alice'' = toLowerCase ''alice''
   \<and> removals (trace (snd (audit18F (exampleGitHub [''alice''] [''admin''] [] [''Alice'', ''alice''] [])
        exampleConfig None None (exampleState [])))) =
       [RemoveOrganizationMember (Some ''token'') ''federalist-users'' ''Alice'']"
proof -
  let ?gh = "exampleGitHub [''alice''] [''admin''] [] [''Alice'', ''alice''] []"
  let ?auditor = "exampleUser 0 ''admin'' True None None None"
  let ?teams = "[[\<lparr>login = ''Alice''\<rparr>, \<lparr>login = ''alice''\<rparr>]]"
  have auditor: "User_findOne (orAdmin exampleConfig None) (users (exampleState [])) = Some ?auditor"
    by (simp add: User_findOne_def orAdmin_def example_defs)
  have refs: "organizationMembers ?gh (githubAccessToken ?auditor) ''18F'' None =
      Inr [\<lparr>login = ''alice''\<rparr>]"
    by (simp add: example_defs)
  have admins: "organizationMembers ?gh (githubAccessToken ?auditor) (orgName exampleConfig)
      (Some ''admin'') = Inr [\<lparr>login = ''admin''\<rparr>]"
    by (simp add: example_defs)
  have teams: "allOutcomes (map (teamMembers ?gh (githubAccessToken ?auditor) (orgName exampleConfig))
      (case None of None \<Rightarrow> teams18F exampleConfig | Some ts \<Rightarrow> ts)) = Inr ?teams"
    by (simp add: example_defs)
  have nonempty: "[\<lparr>login = ''alice''\<rparr>] \<noteq> []"
    by simp
  have m: "\<lparr>login = ''Alice''\<rparr> \<in> set (concat ?teams)"
    by simp
  have differs: "\<forall>r \<in> set (map login [\<lparr>login = ''alice''\<rparr>]) \<union> set (map login [\<lparr>login = ''admin''\<rparr>]).
      login \<lparr>login = ''Alice''\<rparr> \<noteq> r"
    by simp
  have lower: "toLowerCase ''Alice'' = toLowerCase ''alice''"
    by code_simp
  have only: "set (removals (trace (snd (audit18F ?gh exampleConfig None None (exampleState []))))) \<subseteq>
      {RemoveOrganizationMember (Some ''token'') ''federalist-users'' ''Alice''}
    \<and> length (removals (trace (snd (audit18F ?gh exampleConfig None None (exampleState []))))) = 1"
    unfolding audit18F_run [OF auditor refs admins teams] Let_def
    by (simp add: example_defs removals_def)
  show ?thesis
    using audit18F_case_sensitive [OF auditor refs admins teams nonempty m differs] lower only
    by (cases "removals (trace (snd (audit18F ?gh exampleConfig None None (exampleState []))))")
      (simp_all add: example_defs)
qed

subsection \<open>A missing auditor\<close>

text \<open>
  C6 (as amended). In each of the four operations, when \<^verbatim>\<open>User.findOne\<close> finds no row
  for the auditor's username, reading \<^verbatim>\<open>githubAccessToken\<close> of \<^verbatim>\<open>null\<close> throws a
  \<^verbatim>\<open>TypeError\<close>: the operation rejects with it, and the state is the one it started
  from, so no GitHub request, no \<^verbatim>\<open>User.update\<close> and no event has been issued.
\<close>

theorem missing_auditor_aborts:
  "(User_findOne (orAdmin cfg a) (users s) = None \<longrightarrow>
      audit18F gh cfg a t s = (Inl nullTypeError, s)
      \<and> revokeMembershipForInactiveUsers gh cfg tz now a s = (Inl nullTypeError, s)
      \<and> removeMembersWhoAreNotUsers gh cfg a s = (Inl nullTypeError, s))
   \<and> (User_findOne (defaultAdmin cfg a) (users s) = None \<longrightarrow>
      refreshIsActiveUsers gh cfg a s = (Inl nullTypeError, s))
   \<and> errorName nullTypeError = ''TypeError''"
  by (simp add: audit18F_def revokeMembershipForInactiveUsers_def removeMembersWhoAreNotUsers_def
      refreshIsActiveUsers_def nullTypeError_def Let_def)

text \<open>C6, on a roster without the configured auditor admin, whatever GitHub would answer.\<close>

theorem missing_auditor_aborts_witness:
  "audit18F (exampleGitHub [''alice''] [] [''bob''] [''bob''] []) exampleConfig None None
      \<lparr>users = [exampleUser 1 ''jane'' True None None None], trace = []\<rparr> =
     (Inl nullTypeError, \<lparr>users = [exampleUser 1 ''jane'' True None None None], trace = []\<rparr>)
   \<and> revokeMembershipForInactiveUsers (exampleGitHub [''alice''] [] [''bob''] [''bob''] [])
      exampleConfig utcZone 8000000000 None
      \<lparr>users = [exampleUser 1 ''jane'' True None None None], trace = []\<rparr> =
     (Inl nullTypeError, \<lparr>users = [exampleUser 1 ''jane'' True None None None], trace = []\<rparr>)
   \<and> removeMembersWhoAreNotUsers (exampleGitHub [''alice''] [] [''bob''] [''bob''] [])
      exampleConfig None
      \<lparr>users = [exampleUser 1 ''jane'' True None None None], trace = []\<rparr> =
     (Inl nullTypeError, \<lparr>users = [exampleUser 1 ''jane'' True None None None], trace = []\<rparr>)
   \<and> refreshIsActiveUsers (exampleGitHub [''alice''] [] [''bob''] [''bob''] [])
      exampleConfig None
      \<lparr>users = [exampleUser 1 ''jane'' True None None None], trace = []\<rparr> =
     (Inl nullTypeError, \<lparr>users = [exampleUser 1 ''jane'' True None None None], trace = []\<rparr>)"
proof -
  let ?s = "\<lparr>users = [exampleUser 1 ''jane'' True None None None], trace = []\<rparr>"
  have missing: "User_findOne (orAdmin exampleConfig None) (users ?s) = None"
      "User_findOne (defaultAdmin exampleConfig None) (users ?s) = None"
    by (simp_all add: User_findOne_def orAdmin_def defaultAdmin_def example_defs)
  show ?thesis
    using missing_auditor_aborts [where cfg = exampleConfig and a = None and s = "?s"
        and gh = "exampleGitHub [''alice''] [] [''bob''] [''bob''] []" and t = None
        and tz = utcZone and now = 8000000000] missing
    by simp
qed

text \<open>
  C6 as the specification states it fails on the kind of the error: on that roster the
  operations reject with a \<^verbatim>\<open>TypeError\<close>, not with a NotFoundError.
\<close>

theorem missing_auditor_error_counterexample:
  "rejectionName (fst (refreshIsActiveUsers (exampleGitHub [''alice''] [] [''bob''] [''bob''] [])
      exampleConfig None \<lparr>users = [exampleUser 1 ''jane'' True None None None], trace = []\<rparr>)) =
     Some ''TypeError''
   \<and> rejectionName (fst (audit18F (exampleGitHub [''alice''] [] [''bob''] [''bob''] [])
      exampleConfig None None \<lparr>users = [exampleUser 1 ''jane'' True None None None], trace = []\<rparr>)) \<noteq>
     Some ''NotFoundError''"
  by (simp add: refreshIsActiveUsers_def audit18F_def User_findOne_def orAdmin_def defaultAdmin_def
      nullTypeError_def rejectionName_def Let_def example_defs)

end
